theory Spec2Isabelle
  imports Main "HOL-Library.Word"
begin

section \<open>Build configuration\<close>

text \<open>
  \<^verbatim>\<open>main.c\<close> is one translation unit whose shape is chosen by the preprocessor. The
  platform macros \<^verbatim>\<open>FOUNDATION_PLATFORM_*\<close> are defined outside \<^verbatim>\<open>main.c\<close>; the way the
  file tests them (\<^verbatim>\<open>#if WINDOWS ... #elif ANDROID ... #elif POSIX\<close>, and
  \<^verbatim>\<open>POSIX && !ANDROID\<close>) shows that Android, macOS and iOS all have the POSIX flag set.
  \<open>LINUX\<close> stands for every POSIX platform that is none of those three.
\<close>

datatype platform = WINDOWS | ANDROID | LINUX | MACOSX | IOS

definition FOUNDATION_PLATFORM_WINDOWS :: "platform \<Rightarrow> bool" where
  "FOUNDATION_PLATFORM_WINDOWS p = (p = WINDOWS)"

definition FOUNDATION_PLATFORM_ANDROID :: "platform \<Rightarrow> bool" where
  "FOUNDATION_PLATFORM_ANDROID p = (p = ANDROID)"

definition FOUNDATION_PLATFORM_POSIX :: "platform \<Rightarrow> bool" where
  "FOUNDATION_PLATFORM_POSIX p = (p \<noteq> WINDOWS)"

definition FOUNDATION_PLATFORM_MACOSX :: "platform \<Rightarrow> bool" where
  "FOUNDATION_PLATFORM_MACOSX p = (p = MACOSX)"

definition FOUNDATION_PLATFORM_IOS :: "platform \<Rightarrow> bool" where
  "FOUNDATION_PLATFORM_IOS p = (p = IOS)"

record build =
  target :: platform
  BUILD_DEBUG :: bool

section \<open>Constants of the system headers\<close>

text \<open>
  The console control codes and \<^verbatim>\<open>SHUTDOWN_NORETRY\<close> come from the Win32 headers, the
  signal numbers from \<^verbatim>\<open>signal.h\<close>; they carry their standard values.
\<close>

type_synonym DWORD = "32 word"

definition CTRL_C_EVENT :: DWORD where "CTRL_C_EVENT = 0"
definition CTRL_BREAK_EVENT :: DWORD where "CTRL_BREAK_EVENT = 1"
definition CTRL_CLOSE_EVENT :: DWORD where "CTRL_CLOSE_EVENT = 2"
definition CTRL_LOGOFF_EVENT :: DWORD where "CTRL_LOGOFF_EVENT = 5"
definition CTRL_SHUTDOWN_EVENT :: DWORD where "CTRL_SHUTDOWN_EVENT = 6"
definition SHUTDOWN_NORETRY :: DWORD where "SHUTDOWN_NORETRY = 1"

definition SIGINT :: int where "SIGINT = 2"
definition SIGQUIT :: int where "SIGQUIT = 3"
definition SIGKILL :: int where "SIGKILL = 9"
definition SIGPIPE :: int where "SIGPIPE = 13"
definition SIGTERM :: int where "SIGTERM = 15"

lemmas ctrl_defs =
  CTRL_C_EVENT_def CTRL_BREAK_EVENT_def CTRL_CLOSE_EVENT_def CTRL_LOGOFF_EVENT_def
  CTRL_SHUTDOWN_EVENT_def

lemmas sig_defs = SIGINT_def SIGQUIT_def SIGKILL_def SIGPIPE_def SIGTERM_def

section \<open>Calls to collaborators\<close>

text \<open>
  Every function of \<^verbatim>\<open>main.c\<close> is straight-line code over calls into other modules and
  the operating system. The model of a function returns what the C function returns
  together with the list of those calls, in program order, each with its arguments.
  What a collaborator returns is read from the environment \<open>env\<close> below; the model
  covers the executions in which every collaborator returns to its caller.

  A name of the C file that starts with an underscore loses it here:
  \<open>main_console_handler\<close> is \<^verbatim>\<open>_main_console_handler\<close>, \<open>app_will_terminate\<close> is
  \<^verbatim>\<open>_app_will_terminate\<close>, and \<open>App_config_bool HASH_APPLICATION HASH_BSDUTILITY\<close> is the
  call \<^verbatim>\<open>app_config_bool( _HASH_APPLICATION, _HASH_BSDUTILITY )\<close>. The global \<^verbatim>\<open>_bundle\<close>
  is the field \<open>bundle_global\<close>, the global \<^verbatim>\<open>_invoke_argv\<close> the field \<open>invoke_argv\<close>.
  Function pointers, versions and bundle handles are opaque numbers.
\<close>

datatype event_id = FOUNDATIONEVENT_TERMINATE | COREEVENT_TERMINATE

datatype hash_key = HASH_APPLICATION | HASH_DAEMON | HASH_BSDUTILITY

datatype fnptr = Fn_main_console_handler | Fn_sighandler | Fn_main_run | SIG_IGN

datatype arg = Arg_str string | Arg_dword DWORD | Arg_int int

type_synonym callback = nat
type_synonym version_t = nat
type_synonym bundle_ref = nat

datatype call =
    Config_bool hash_key hash_key
  | App_config_bool hash_key hash_key
  | Log_infof string "arg list"
  | System_post_event event_id
  | GetProcessShutdownParameters
  | SetProcessShutdownParameters DWORD DWORD
  | Thread_sleep int
  | Android_initialize
  | Android_shutdown
  | Main_initialize
  | Main_run int
  | Main_shutdown
  | SetConsoleCtrlHandler fnptr bool
  | Signal int fnptr
  | Sigaction int fnptr
  | Thread_set_main
  | Environment_application
  | String_clone string
  | String_append string string
  | Version_to_string_static version_t
  | Crash_guard_set callback string
  | Crash_guard fnptr int "callback option" string
  | String_deallocate string
  | App_start_main_ns_thread int "string list"
  | NSApplicationMain int "string list"
  | UIApplicationMain int "string list"
  | App_main int
  | CFRelease bundle_ref
  | System_event_post event_id
  | App_pump_events
  | App_main_post_loop
  | Core_terminate_services
  | App_exit
  | App_post_exit
  | Array_deallocate "string list"
  | Core_shutdown

record application_t =
  short_name :: "string option"
  version :: version_t
  dump_callback :: "callback option"

text \<open>
  The environment: one field for each value that \<^verbatim>\<open>main.c\<close> reads from a collaborator or
  from a global it does not define. \<open>None\<close> is the null pointer. \<open>shutdown_parameters\<close>
  is what \<^verbatim>\<open>GetProcessShutdownParameters\<close> stores through its two pointers when it
  succeeds; when it fails the locals keep their initial value 0.
\<close>

record env =
  config_daemon :: bool
  app_config_bsdutility :: bool
  shutdown_parameters :: "(DWORD \<times> DWORD) option"
  android_initialize_ret :: int
  main_initialize_ret :: int
  main_run_ret :: int
  crash_guard_ret :: int
  application :: application_t
  version_string :: "version_t \<Rightarrow> string"
  app_main_ret :: int
  NSApplicationMain_ret :: int
  UIApplicationMain_ret :: int
  bundle_global :: "bundle_ref option"
  invoke_argv :: "string list"

section \<open>Termination handlers\<close>

text \<open>
  \<^verbatim>\<open>_main_console_handler\<close> (Windows). The \<^verbatim>\<open>switch\<close> sets three locals; the model
  computes them one by one, each by the same case distinction.
\<close>

definition control_name :: "DWORD \<Rightarrow> string" where
  "control_name control_type =
     (if control_type = CTRL_C_EVENT then ''CTRL_C''
      else if control_type = CTRL_BREAK_EVENT then ''CTRL_BREAK''
      else if control_type = CTRL_CLOSE_EVENT then ''CTRL_CLOSE''
      else if control_type = CTRL_LOGOFF_EVENT then ''CTRL_LOGOFF''
      else if control_type = CTRL_SHUTDOWN_EVENT then ''CTRL_SHUTDOWN''
      else ''UNKNOWN'')"

definition post_terminate :: "env \<Rightarrow> DWORD \<Rightarrow> bool" where
  "post_terminate e control_type =
     (if control_type = CTRL_C_EVENT then True
      else if control_type = CTRL_BREAK_EVENT then False
      else if control_type = CTRL_CLOSE_EVENT then True
      else if control_type = CTRL_LOGOFF_EVENT then \<not> config_daemon e
      else if control_type = CTRL_SHUTDOWN_EVENT then True
      else False)"

definition handled :: "DWORD \<Rightarrow> bool" where
  "handled control_type =
     (if control_type = CTRL_C_EVENT then True
      else if control_type = CTRL_BREAK_EVENT then True
      else if control_type = CTRL_CLOSE_EVENT then True
      else if control_type = CTRL_LOGOFF_EVENT then True
      else if control_type = CTRL_SHUTDOWN_EVENT then True
      else False)"

text \<open>
  The local \<^verbatim>\<open>level\<close> after \<^verbatim>\<open>GetProcessShutdownParameters( &level, &flags )\<close>: it is
  initialised to 0 and overwritten when the call succeeds.
\<close>

definition level_after_get :: "env \<Rightarrow> DWORD" where
  "level_after_get e = (case shutdown_parameters e of None \<Rightarrow> 0 | Some (l, f) \<Rightarrow> l)"

definition main_console_handler :: "env \<Rightarrow> DWORD \<Rightarrow> bool \<times> call list" where
  "main_console_handler e control_type =
     (let level = level_after_get e
      in (handled control_type,
          (if control_type = CTRL_LOGOFF_EVENT
           then [Config_bool HASH_APPLICATION HASH_DAEMON] else [])
          @ [Log_infof ''Caught console control: %s (%d)''
               [Arg_str (control_name control_type), Arg_dword control_type]]
          @ (if post_terminate e control_type
             then [System_post_event FOUNDATIONEVENT_TERMINATE,
                   GetProcessShutdownParameters,
                   SetProcessShutdownParameters level SHUTDOWN_NORETRY,
                   Thread_sleep 1000]
             else [])))"

text \<open>\<^verbatim>\<open>sighandler\<close> (POSIX other than Android). It returns nothing.\<close>

definition signame :: "int \<Rightarrow> string" where
  "signame sig =
     (if sig = SIGKILL then ''SIGKILL''
      else if sig = SIGTERM then ''SIGTERM''
      else if sig = SIGQUIT then ''SIGQUIT''
      else if sig = SIGINT then ''SIGINT''
      else ''UNKNOWN'')"

definition sighandler :: "int \<Rightarrow> call list" where
  "sighandler sig =
     [Log_infof ''Caught signal: %s (%d)'' [Arg_str (signame sig), Arg_int sig],
      System_post_event FOUNDATIONEVENT_TERMINATE]"

section \<open>Crash-guarded run\<close>

text \<open>
  Modelled from the spec: \<^verbatim>\<open>string_clone\<close> and \<^verbatim>\<open>string_append\<close> are string utilities
  that \<^verbatim>\<open>main.c\<close> calls and does not define (section 1 lists them as external
  collaborators used for building diagnostic labels). A clone holds the text of its
  argument; an append holds the text of the first argument followed by the second.
\<close>

definition string_clone :: "string \<Rightarrow> string" where
  "string_clone s = s"

definition string_append :: "string \<Rightarrow> string \<Rightarrow> string" where
  "string_append s t = s @ t"

text \<open>
  The run phase of \<^verbatim>\<open>WinMain\<close> (lines 69 to 89) and of \<^verbatim>\<open>main\<close> (lines 201 to 221);
  the text of the two blocks is the same. With \<^verbatim>\<open>BUILD_DEBUG\<close> the block is the single
  call \<^verbatim>\<open>main_run( 0 )\<close>. Otherwise it builds \<^verbatim>\<open>name\<close>, registers the dump callback when
  there is one, calls \<^verbatim>\<open>crash_guard\<close> and deallocates \<^verbatim>\<open>name\<close>. The arguments of
  \<^verbatim>\<open>string_append\<close> are evaluated before the call, so \<^verbatim>\<open>version_to_string_static\<close> is
  called before the second append.
\<close>

definition debug_run :: "env \<Rightarrow> int \<times> call list" where
  "debug_run e = (main_run_ret e, [Main_run 0])"

definition release_run :: "env \<Rightarrow> int \<times> call list" where
  "release_run e =
     (let app = application e;
          aname = short_name app;
          initial = (case aname of Some s \<Rightarrow> s | None \<Rightarrow> ''unknown'');
          name1 = string_clone initial;
          name2 = string_append name1 ''-'';
          vstr = version_string e (version app);
          name = string_append name2 vstr
      in (crash_guard_ret e,
          [Environment_application,
           String_clone initial,
           String_append name1 ''-'',
           Version_to_string_static (version app),
           String_append name2 vstr]
          @ (case dump_callback app of
               Some cb \<Rightarrow> [Crash_guard_set cb name]
             | None \<Rightarrow> [])
          @ [Crash_guard Fn_main_run 0 (dump_callback app) name,
             String_deallocate name]))"

definition run_block :: "bool \<Rightarrow> env \<Rightarrow> int \<times> call list" where
  "run_block debug e = (if debug then debug_run e else release_run e)"

section \<open>Entry points\<close>

text \<open>\<^verbatim>\<open>WinMain\<close> is compiled on Windows only; its one build parameter is \<^verbatim>\<open>BUILD_DEBUG\<close>.\<close>

definition WinMain :: "bool \<Rightarrow> env \<Rightarrow> int \<times> call list" where
  "WinMain debug e =
     (if main_initialize_ret e < 0 then (- 1, [Main_initialize])
      else
        (fst (run_block debug e),
         [Main_initialize,
          SetConsoleCtrlHandler Fn_main_console_handler True,
          Thread_set_main]
         @ snd (run_block debug e)
         @ [Main_shutdown]))"

text \<open>
  \<^verbatim>\<open>main\<close> (\<^verbatim>\<open>android_main\<close> on Android, which returns nothing: its result is \<open>None\<close>).
  The parts of the body, in program order: initialisation (lines 143 to 151), the
  installation of the handlers (lines 153 to 175), \<^verbatim>\<open>thread_set_main\<close>, the run phase
  (lines 179 to 223), \<^verbatim>\<open>main_shutdown\<close> and the platform's cleanup (lines 225 to 240).
\<close>

definition install_handlers :: "platform \<Rightarrow> call list" where
  "install_handlers p =
     (if FOUNDATION_PLATFORM_POSIX p \<and> \<not> FOUNDATION_PLATFORM_ANDROID p
      then [Signal SIGKILL Fn_sighandler,
            Signal SIGTERM Fn_sighandler,
            Signal SIGQUIT Fn_sighandler,
            Signal SIGINT Fn_sighandler,
            Sigaction SIGPIPE SIG_IGN]
      else [])
     @ (if FOUNDATION_PLATFORM_WINDOWS p
        then [SetConsoleCtrlHandler Fn_main_console_handler True]
        else [])"

definition run_phase :: "build \<Rightarrow> env \<Rightarrow> int \<Rightarrow> string list \<Rightarrow> int \<times> call list" where
  "run_phase b e argc argv =
     (if FOUNDATION_PLATFORM_MACOSX (target b) \<or> FOUNDATION_PLATFORM_IOS (target b)
      then
        (if \<not> app_config_bsdutility e
         then
           (if FOUNDATION_PLATFORM_MACOSX (target b)
            then (NSApplicationMain_ret e,
                  [App_config_bool HASH_APPLICATION HASH_BSDUTILITY,
                   App_start_main_ns_thread argc argv,
                   NSApplicationMain argc argv])
            else (UIApplicationMain_ret e,
                  [App_config_bool HASH_APPLICATION HASH_BSDUTILITY,
                   UIApplicationMain argc argv]))
         else (app_main_ret e,
               [App_config_bool HASH_APPLICATION HASH_BSDUTILITY,
                App_main 0]))
      else run_block (BUILD_DEBUG b) e)"

definition platform_cleanup :: "platform \<Rightarrow> env \<Rightarrow> call list" where
  "platform_cleanup p e =
     (if FOUNDATION_PLATFORM_MACOSX p \<or> FOUNDATION_PLATFORM_IOS p
      then (case bundle_global e of Some h \<Rightarrow> [CFRelease h] | None \<Rightarrow> [])
      else [])
     @ (if FOUNDATION_PLATFORM_ANDROID p then [Android_shutdown] else [])"

definition main :: "build \<Rightarrow> env \<Rightarrow> int \<Rightarrow> string list \<Rightarrow> int option \<times> call list" where
  "main b e argc argv =
     (if FOUNDATION_PLATFORM_ANDROID (target b)
      then
        (if android_initialize_ret e < 0 then (None, [Android_initialize])
         else if main_initialize_ret e < 0 then (None, [Android_initialize, Main_initialize])
         else
           (None,
            [Android_initialize, Main_initialize]
            @ install_handlers (target b)
            @ [Thread_set_main]
            @ snd (run_phase b e argc argv)
            @ [Main_shutdown]
            @ platform_cleanup (target b) e))
      else
        (if main_initialize_ret e < 0 then (Some (- 1), [Main_initialize])
         else
           (Some (fst (run_phase b e argc argv)),
            [Main_initialize]
            @ install_handlers (target b)
            @ [Thread_set_main]
            @ snd (run_phase b e argc argv)
            @ [Main_shutdown]
            @ platform_cleanup (target b) e)))"

text \<open>\<^verbatim>\<open>_app_will_terminate\<close> (macOS and iOS), the hook behind "will terminate".\<close>

definition app_will_terminate :: "env \<Rightarrow> call list" where
  "app_will_terminate e =
     [System_event_post COREEVENT_TERMINATE,
      App_pump_events,
      App_main_post_loop,
      Core_terminate_services]
     @ (case bundle_global e of Some h \<Rightarrow> [CFRelease h] | None \<Rightarrow> [])
     @ [App_exit,
        App_post_exit,
        Array_deallocate (invoke_argv e),
        Core_shutdown]"

lemmas platform_defs =
  FOUNDATION_PLATFORM_WINDOWS_def FOUNDATION_PLATFORM_ANDROID_def FOUNDATION_PLATFORM_POSIX_def
  FOUNDATION_PLATFORM_MACOSX_def FOUNDATION_PLATFORM_IOS_def

lemmas handler_defs =
  main_console_handler_def handled_def post_terminate_def control_name_def ctrl_defs

lemmas run_defs =
  run_block_def debug_run_def release_run_def string_clone_def string_append_def

lemmas main_defs =
  main_def run_phase_def install_handlers_def platform_cleanup_def platform_defs

section \<open>Observations on a list of calls\<close>

definition posted :: "call list \<Rightarrow> nat" where
  "posted tr = count_list tr (System_post_event FOUNDATIONEVENT_TERMINATE)"

fun is_deferral :: "call \<Rightarrow> bool" where
  "is_deferral GetProcessShutdownParameters = True"
| "is_deferral (SetProcessShutdownParameters l f) = True"
| "is_deferral c = False"

fun is_pause :: "call \<Rightarrow> bool" where
  "is_pause (Thread_sleep ms) = True"
| "is_pause c = False"

text \<open>The calls into the lifecycle controller.\<close>

fun is_lifecycle :: "call \<Rightarrow> bool" where
  "is_lifecycle Main_initialize = True"
| "is_lifecycle (Main_run a) = True"
| "is_lifecycle Main_shutdown = True"
| "is_lifecycle c = False"

text \<open>The calls that start the application's run phase, directly or through a wrapper.\<close>

fun is_run :: "call \<Rightarrow> bool" where
  "is_run (Main_run a) = True"
| "is_run (Crash_guard f a cb n) = True"
| "is_run (App_main a) = True"
| "is_run (App_start_main_ns_thread c v) = True"
| "is_run (NSApplicationMain c v) = True"
| "is_run (UIApplicationMain c v) = True"
| "is_run c = False"

text \<open>The calls of the crash guard: building the label, registering the handler, guarding.\<close>

fun is_guard :: "call \<Rightarrow> bool" where
  "is_guard Environment_application = True"
| "is_guard (String_clone s) = True"
| "is_guard (String_append s t) = True"
| "is_guard (Version_to_string_static v) = True"
| "is_guard (Crash_guard_set cb n) = True"
| "is_guard (Crash_guard f a cb n) = True"
| "is_guard (String_deallocate s) = True"
| "is_guard c = False"



text \<open>The calls that shut down or release something.\<close>

fun is_shutdown :: "call \<Rightarrow> bool" where
  "is_shutdown Main_shutdown = True"
| "is_shutdown Android_shutdown = True"
| "is_shutdown Core_shutdown = True"
| "is_shutdown (CFRelease h) = True"
| "is_shutdown (Array_deallocate a) = True"
| "is_shutdown (String_deallocate s) = True"
| "is_shutdown c = False"

text \<open>The calls that enter a user-interface event loop or start a second thread.\<close>

fun is_ui :: "call \<Rightarrow> bool" where
  "is_ui (App_start_main_ns_thread c v) = True"
| "is_ui (NSApplicationMain c v) = True"
| "is_ui (UIApplicationMain c v) = True"
| "is_ui c = False"

text \<open>\<open>precedes x y tr\<close>: \<open>x\<close> occurs in \<open>tr\<close>, and \<open>y\<close> occurs after its first occurrence.\<close>

fun precedes :: "call \<Rightarrow> call \<Rightarrow> call list \<Rightarrow> bool" where
  "precedes x y [] = False"
| "precedes x y (c # cs) = (if c = x then y \<in> set cs else precedes x y cs)"

text \<open>The label the crash guard is to receive: short name, or \<open>unknown\<close>, dash, version.\<close>

definition crash_label :: "env \<Rightarrow> string" where
  "crash_label e =
     (case short_name (application e) of None \<Rightarrow> ''unknown'' | Some s \<Rightarrow> s)
     @ ''-'' @ version_string e (version (application e))"

section \<open>Example inputs\<close>

definition sample_env :: env where
  "sample_env =
     \<lparr> config_daemon = False, app_config_bsdutility = True,
       shutdown_parameters = Some (0x280, 0),
       android_initialize_ret = 0, main_initialize_ret = 0,
       main_run_ret = 7, crash_guard_ret = 7,
       application = \<lparr> short_name = None, version = 1, dump_callback = Some 4096 \<rparr>,
       version_string = (\<lambda>v. ''1.0.0''),
       app_main_ret = 7, NSApplicationMain_ret = 0, UIApplicationMain_ret = 0,
       bundle_global = Some 1, invoke_argv = [''app''] \<rparr>"

section \<open>Properties of the termination handlers\<close>

text \<open>
  C10. On Windows a \<^verbatim>\<open>CTRL_BREAK\<close> console control event is reported to the operating
  system as handled (the handler returns TRUE), yet the handler posts no termination
  event, requests no shutdown deferral and does not pause: its only call is the log line.
\<close>

theorem ctrl_break_handled_without_effect:
  "main_console_handler e CTRL_BREAK_EVENT =
     (True, [Log_infof ''Caught console control: %s (%d)''
               [Arg_str ''CTRL_BREAK'', Arg_dword CTRL_BREAK_EVENT]])
   \<and> posted (snd (main_console_handler e CTRL_BREAK_EVENT)) = 0
   \<and> filter is_deferral (snd (main_console_handler e CTRL_BREAK_EVENT)) = []
   \<and> filter is_pause (snd (main_console_handler e CTRL_BREAK_EVENT)) = []"
  by (simp add: handler_defs posted_def)

text \<open>
  The claim C1 at session logoff in daemon mode: the cause is one of the mapping table,
  yet the handler posts no termination event.
\<close>

theorem logoff_in_daemon_mode_posts_nothing:
  "posted (snd (main_console_handler (sample_env\<lparr>config_daemon := True\<rparr>) CTRL_LOGOFF_EVENT)) = 0
   \<and> posted (snd (main_console_handler (sample_env\<lparr>config_daemon := True\<rparr>) CTRL_LOGOFF_EVENT)) \<noteq> 1"
  by (simp add: handler_defs posted_def sample_env_def)

text \<open>
  C1, as the code has it. On Windows the console handler, for \<^verbatim>\<open>CTRL_C\<close>, \<^verbatim>\<open>CTRL_CLOSE\<close>
  and \<^verbatim>\<open>CTRL_SHUTDOWN\<close>, logs the cause by name, posts exactly one
  \<^verbatim>\<open>FOUNDATIONEVENT_TERMINATE\<close>, then calls \<^verbatim>\<open>GetProcessShutdownParameters\<close>, then
  \<^verbatim>\<open>SetProcessShutdownParameters\<close> with the level read and \<^verbatim>\<open>SHUTDOWN_NORETRY\<close>, then sleeps
  1000 ms, and returns TRUE. For \<^verbatim>\<open>CTRL_LOGOFF\<close> it first reads the daemon configuration
  flag and logs; it goes through the same four calls only when the flag is false, and
  posts nothing when it is true; it returns TRUE either way. For \<^verbatim>\<open>CTRL_BREAK\<close> it only
  logs and returns TRUE. For every other code it only logs, under the name \<open>UNKNOWN\<close>,
  and returns FALSE, "not handled". On POSIX \<^verbatim>\<open>sighandler\<close> logs and then posts exactly
  one \<^verbatim>\<open>FOUNDATIONEVENT_TERMINATE\<close> for whatever signal number it is called with, and
  returns nothing. The event is the bare constant: it carries neither a cause tag nor a
  must-defer flag; the cause appears in the log line only.
\<close>

theorem termination_cause_mapping:
  "main_console_handler e CTRL_C_EVENT =
     (True,
      [Log_infof ''Caught console control: %s (%d)'' [Arg_str ''CTRL_C'', Arg_dword CTRL_C_EVENT],
       System_post_event FOUNDATIONEVENT_TERMINATE,
       GetProcessShutdownParameters,
       SetProcessShutdownParameters (level_after_get e) SHUTDOWN_NORETRY,
       Thread_sleep 1000])
   \<and> main_console_handler e CTRL_CLOSE_EVENT =
     (True,
      [Log_infof ''Caught console control: %s (%d)''
         [Arg_str ''CTRL_CLOSE'', Arg_dword CTRL_CLOSE_EVENT],
       System_post_event FOUNDATIONEVENT_TERMINATE,
       GetProcessShutdownParameters,
       SetProcessShutdownParameters (level_after_get e) SHUTDOWN_NORETRY,
       Thread_sleep 1000])
   \<and> main_console_handler e CTRL_SHUTDOWN_EVENT =
     (True,
      [Log_infof ''Caught console control: %s (%d)''
         [Arg_str ''CTRL_SHUTDOWN'', Arg_dword CTRL_SHUTDOWN_EVENT],
       System_post_event FOUNDATIONEVENT_TERMINATE,
       GetProcessShutdownParameters,
       SetProcessShutdownParameters (level_after_get e) SHUTDOWN_NORETRY,
       Thread_sleep 1000])
   \<and> main_console_handler e CTRL_LOGOFF_EVENT =
     (True,
      [Config_bool HASH_APPLICATION HASH_DAEMON,
       Log_infof ''Caught console control: %s (%d)''
         [Arg_str ''CTRL_LOGOFF'', Arg_dword CTRL_LOGOFF_EVENT]]
      @ (if config_daemon e then []
         else [System_post_event FOUNDATIONEVENT_TERMINATE,
               GetProcessShutdownParameters,
               SetProcessShutdownParameters (level_after_get e) SHUTDOWN_NORETRY,
               Thread_sleep 1000]))
   \<and> main_console_handler e CTRL_BREAK_EVENT =
     (True,
      [Log_infof ''Caught console control: %s (%d)''
         [Arg_str ''CTRL_BREAK'', Arg_dword CTRL_BREAK_EVENT]])
   \<and> (c \<noteq> CTRL_C_EVENT \<and> c \<noteq> CTRL_BREAK_EVENT \<and> c \<noteq> CTRL_CLOSE_EVENT
        \<and> c \<noteq> CTRL_LOGOFF_EVENT \<and> c \<noteq> CTRL_SHUTDOWN_EVENT \<longrightarrow>
      main_console_handler e c =
        (False, [Log_infof ''Caught console control: %s (%d)'' [Arg_str ''UNKNOWN'', Arg_dword c]]))
   \<and> posted (snd (main_console_handler e c)) =
     (if c = CTRL_C_EVENT \<or> c = CTRL_CLOSE_EVENT \<or> c = CTRL_SHUTDOWN_EVENT
         \<or> (c = CTRL_LOGOFF_EVENT \<and> \<not> config_daemon e) then 1 else 0)
   \<and> fst (main_console_handler e c) =
       (c = CTRL_C_EVENT \<or> c = CTRL_BREAK_EVENT \<or> c = CTRL_CLOSE_EVENT
        \<or> c = CTRL_LOGOFF_EVENT \<or> c = CTRL_SHUTDOWN_EVENT)
   \<and> sighandler sig =
       [Log_infof ''Caught signal: %s (%d)''
          [Arg_str (if sig = SIGKILL then ''SIGKILL'' else if sig = SIGTERM then ''SIGTERM''
                    else if sig = SIGQUIT then ''SIGQUIT'' else if sig = SIGINT then ''SIGINT''
                    else ''UNKNOWN''),
           Arg_int sig],
        System_post_event FOUNDATIONEVENT_TERMINATE]
   \<and> posted (sighandler sig) = 1"
  by (simp add: handler_defs posted_def sighandler_def signame_def)

theorem termination_cause_mapping_witness:
  "main_console_handler sample_env 3 =
     (False, [Log_infof ''Caught console control: %s (%d)'' [Arg_str ''UNKNOWN'', Arg_dword 3]])
   \<and> main_console_handler sample_env CTRL_LOGOFF_EVENT =
     (True,
      [Config_bool HASH_APPLICATION HASH_DAEMON,
       Log_infof ''Caught console control: %s (%d)'' [Arg_str ''CTRL_LOGOFF'', Arg_dword 5],
       System_post_event FOUNDATIONEVENT_TERMINATE,
       GetProcessShutdownParameters,
       SetProcessShutdownParameters 0x280 1,
       Thread_sleep 1000])
   \<and> posted (snd (main_console_handler sample_env 3)) = 0
   \<and> sighandler 1 =
       [Log_infof ''Caught signal: %s (%d)'' [Arg_str ''UNKNOWN'', Arg_int 1],
        System_post_event FOUNDATIONEVENT_TERMINATE]"
  using termination_cause_mapping [of sample_env 3 1]
  by (simp add: ctrl_defs sig_defs sample_env_def level_after_get_def SHUTDOWN_NORETRY_def
      posted_def)

text \<open>
  The claim C2 at \<^verbatim>\<open>CTRL_C\<close> on Windows: the handler does request shutdown deferral, and
  it does pause.
\<close>

theorem ctrl_c_defers_and_pauses:
  "filter is_pause (snd (main_console_handler sample_env CTRL_C_EVENT)) = [Thread_sleep 1000]
   \<and> filter is_deferral (snd (main_console_handler sample_env CTRL_C_EVENT))
       = [GetProcessShutdownParameters, SetProcessShutdownParameters 0x280 SHUTDOWN_NORETRY]"
  by (simp add: handler_defs sample_env_def level_after_get_def)

text \<open>
  C2, as the code has it. A user interrupt posts exactly one termination event on both
  platforms, and neither handler calls into the lifecycle controller. On POSIX
  (\<^verbatim>\<open>SIGINT\<close>) the handler logs and posts, with no deferral request and no pause. On
  Windows (\<^verbatim>\<open>CTRL_C\<close>) the handler, after posting, reads the process shutdown
  parameters, sets them with \<^verbatim>\<open>SHUTDOWN_NORETRY\<close> and sleeps 1000 ms, as it does for
  every cause it posts for, and returns TRUE.
\<close>

theorem user_interrupt_handling:
  "sighandler SIGINT =
     [Log_infof ''Caught signal: %s (%d)'' [Arg_str ''SIGINT'', Arg_int SIGINT],
      System_post_event FOUNDATIONEVENT_TERMINATE]
   \<and> main_console_handler e CTRL_C_EVENT =
     (True,
      [Log_infof ''Caught console control: %s (%d)'' [Arg_str ''CTRL_C'', Arg_dword CTRL_C_EVENT],
       System_post_event FOUNDATIONEVENT_TERMINATE,
       GetProcessShutdownParameters,
       SetProcessShutdownParameters (level_after_get e) SHUTDOWN_NORETRY,
       Thread_sleep 1000])
   \<and> posted (sighandler SIGINT) = 1
   \<and> posted (snd (main_console_handler e CTRL_C_EVENT)) = 1
   \<and> filter is_deferral (sighandler SIGINT) = []
   \<and> filter is_pause (sighandler SIGINT) = []
   \<and> filter is_lifecycle (sighandler SIGINT) = []
   \<and> filter is_lifecycle (snd (main_console_handler e CTRL_C_EVENT)) = []"
  by (simp add: handler_defs posted_def sighandler_def signame_def sig_defs)

text \<open>
  C3. When a system shutdown notification (\<^verbatim>\<open>CTRL_SHUTDOWN\<close>, and likewise the console
  close \<^verbatim>\<open>CTRL_CLOSE\<close> that the mapping table files under the same cause) arrives and the
  daemon configuration flag is false, the Windows handler posts the termination event,
  then requests deferral through the shutdown-parameters calls (get, then set with the
  level read and \<^verbatim>\<open>SHUTDOWN_NORETRY\<close>), then sleeps 1000 ms, and returns TRUE.
\<close>

theorem system_shutdown_defers_and_pauses:
  assumes "\<not> config_daemon e"
    and "c = CTRL_SHUTDOWN_EVENT \<or> c = CTRL_CLOSE_EVENT"
  shows "main_console_handler e c =
     (True,
      [Log_infof ''Caught console control: %s (%d)''
         [Arg_str (if c = CTRL_SHUTDOWN_EVENT then ''CTRL_SHUTDOWN'' else ''CTRL_CLOSE''),
          Arg_dword c],
       System_post_event FOUNDATIONEVENT_TERMINATE,
       GetProcessShutdownParameters,
       SetProcessShutdownParameters (level_after_get e) SHUTDOWN_NORETRY,
       Thread_sleep 1000])"
  using assms(2) by (auto simp add: handler_defs)

theorem system_shutdown_defers_and_pauses_witness:
  "\<not> config_daemon sample_env
   \<and> main_console_handler sample_env CTRL_SHUTDOWN_EVENT =
      (True,
       [Log_infof ''Caught console control: %s (%d)''
          [Arg_str ''CTRL_SHUTDOWN'', Arg_dword 6],
        System_post_event FOUNDATIONEVENT_TERMINATE,
        GetProcessShutdownParameters,
        SetProcessShutdownParameters 0x280 1,
        Thread_sleep 1000])"
proof -
  have d: "\<not> config_daemon sample_env"
    by (simp add: sample_env_def)
  have c: "CTRL_SHUTDOWN_EVENT = CTRL_SHUTDOWN_EVENT \<or> CTRL_SHUTDOWN_EVENT = CTRL_CLOSE_EVENT"
    by simp
  show ?thesis
    using d system_shutdown_defers_and_pauses [OF d c]
    by (simp add: sample_env_def level_after_get_def CTRL_SHUTDOWN_EVENT_def SHUTDOWN_NORETRY_def)
qed

section \<open>Properties of the entry points\<close>

text \<open>
  C5. In every entry point, when \<^verbatim>\<open>main_initialize\<close> returns a negative value the entry
  point returns at once: \<^verbatim>\<open>WinMain\<close> and \<^verbatim>\<open>main\<close> return -1 (\<^verbatim>\<open>android_main\<close> has no return
  value), and no call that starts the run phase and no shutdown or release call is made.
\<close>

theorem initialize_failure_returns_at_once:
  assumes "main_initialize_ret e < 0"
  shows "WinMain debug e = (- 1, [Main_initialize])
    \<and> fst (main b e argc argv) = (if target b = ANDROID then None else Some (- 1))
    \<and> filter is_run (snd (main b e argc argv)) = []
    \<and> filter is_shutdown (snd (main b e argc argv)) = []
    \<and> (target b \<noteq> ANDROID \<longrightarrow> snd (main b e argc argv) = [Main_initialize])"
  using assms by (simp add: WinMain_def main_defs)

theorem initialize_failure_returns_at_once_witness:
  "main_initialize_ret (sample_env\<lparr>main_initialize_ret := - 1\<rparr>) < 0
   \<and> WinMain False (sample_env\<lparr>main_initialize_ret := - 1\<rparr>) = (- 1, [Main_initialize])
   \<and> main \<lparr>target = LINUX, BUILD_DEBUG = False\<rparr> (sample_env\<lparr>main_initialize_ret := - 1\<rparr>) 1 [''app'']
       = (Some (- 1), [Main_initialize])"
proof -
  have f: "main_initialize_ret (sample_env\<lparr>main_initialize_ret := - 1\<rparr>) < 0"
    by simp
  show ?thesis
    using f initialize_failure_returns_at_once
      [OF f, of False "\<lparr>target = LINUX, BUILD_DEBUG = False\<rparr>" 1 "[''app'']"]
    by (cases "main \<lparr>target = LINUX, BUILD_DEBUG = False\<rparr>
                 (sample_env\<lparr>main_initialize_ret := - 1\<rparr>) 1 [''app'']") simp
qed

text \<open>
  C6. On the console and daemon platforms (Windows with \<^verbatim>\<open>main\<close> or \<^verbatim>\<open>WinMain\<close>, and
  POSIX other than Android, macOS and iOS), when \<^verbatim>\<open>main_initialize\<close> succeeds the entry
  point makes exactly one call that runs the application, \<^verbatim>\<open>main_run( 0 )\<close> in a debug build
  and \<^verbatim>\<open>crash_guard( main_run, 0, dump_callback, name )\<close> otherwise, and returns exactly the
  value that call returned. What follows that call is the deallocation of the label (in
  a release build) and \<^verbatim>\<open>main_shutdown\<close>, the last call; the value returned does not
  depend on it.
\<close>

theorem exit_code_is_run_value:
  assumes "\<not> main_initialize_ret e < 0" and "target b = WINDOWS \<or> target b = LINUX"
  shows "fst (main b e argc argv)
           = Some (if BUILD_DEBUG b then main_run_ret e else crash_guard_ret e)
    \<and> filter is_run (snd (main b e argc argv))
        = [if BUILD_DEBUG b then Main_run 0
           else Crash_guard Fn_main_run 0 (dump_callback (application e)) (crash_label e)]
    \<and> dropWhile (\<lambda>c. \<not> is_run c) (snd (main b e argc argv))
        = (if BUILD_DEBUG b then [Main_run 0, Main_shutdown]
           else [Crash_guard Fn_main_run 0 (dump_callback (application e)) (crash_label e),
                 String_deallocate (crash_label e),
                 Main_shutdown])
    \<and> fst (WinMain debug e) = (if debug then main_run_ret e else crash_guard_ret e)
    \<and> filter is_run (snd (WinMain debug e))
        = [if debug then Main_run 0
           else Crash_guard Fn_main_run 0 (dump_callback (application e)) (crash_label e)]
    \<and> dropWhile (\<lambda>c. \<not> is_run c) (snd (WinMain debug e))
        = (if debug then [Main_run 0, Main_shutdown]
           else [Crash_guard Fn_main_run 0 (dump_callback (application e)) (crash_label e),
                 String_deallocate (crash_label e),
                 Main_shutdown])"
proof -
  have w: "fst (WinMain debug e) = (if debug then main_run_ret e else crash_guard_ret e)
    \<and> filter is_run (snd (WinMain debug e))
        = [if debug then Main_run 0
           else Crash_guard Fn_main_run 0 (dump_callback (application e)) (crash_label e)]
    \<and> dropWhile (\<lambda>c. \<not> is_run c) (snd (WinMain debug e))
        = (if debug then [Main_run 0, Main_shutdown]
           else [Crash_guard Fn_main_run 0 (dump_callback (application e)) (crash_label e),
                 String_deallocate (crash_label e),
                 Main_shutdown])"
    using assms(1)
    by (simp add: WinMain_def run_defs Let_def crash_label_def split: option.splits)
  have m: "fst (main b e argc argv)
           = Some (if BUILD_DEBUG b then main_run_ret e else crash_guard_ret e)
    \<and> filter is_run (snd (main b e argc argv))
        = [if BUILD_DEBUG b then Main_run 0
           else Crash_guard Fn_main_run 0 (dump_callback (application e)) (crash_label e)]
    \<and> dropWhile (\<lambda>c. \<not> is_run c) (snd (main b e argc argv))
        = (if BUILD_DEBUG b then [Main_run 0, Main_shutdown]
           else [Crash_guard Fn_main_run 0 (dump_callback (application e)) (crash_label e),
                 String_deallocate (crash_label e),
                 Main_shutdown])"
    using assms(2)
  proof
    assume "target b = WINDOWS"
    with assms(1) show ?thesis
      by (simp add: main_defs run_defs Let_def crash_label_def split: option.splits)
  next
    assume "target b = LINUX"
    with assms(1) show ?thesis
      by (simp add: main_defs run_defs Let_def crash_label_def split: option.splits)
  qed
  from m w show ?thesis
    by simp
qed

theorem exit_code_is_run_value_witness:
  "\<not> main_initialize_ret (sample_env\<lparr>main_run_ret := 3\<rparr>) < 0
   \<and> fst (main \<lparr>target = LINUX, BUILD_DEBUG = False\<rparr> (sample_env\<lparr>main_run_ret := 3\<rparr>) 1 [''app''])
       = Some 7
   \<and> dropWhile (\<lambda>c. \<not> is_run c)
        (snd (main \<lparr>target = LINUX, BUILD_DEBUG = False\<rparr> (sample_env\<lparr>main_run_ret := 3\<rparr>) 1 [''app'']))
       = [Crash_guard Fn_main_run 0 (Some 4096) ''unknown-1.0.0'',
          String_deallocate ''unknown-1.0.0'',
          Main_shutdown]
   \<and> fst (main \<lparr>target = WINDOWS, BUILD_DEBUG = True\<rparr> (sample_env\<lparr>main_run_ret := 3\<rparr>) 1 [''app''])
       = Some 3
   \<and> dropWhile (\<lambda>c. \<not> is_run c)
        (snd (main \<lparr>target = WINDOWS, BUILD_DEBUG = True\<rparr> (sample_env\<lparr>main_run_ret := 3\<rparr>) 1 [''app'']))
       = [Main_run 0, Main_shutdown]
   \<and> fst (WinMain True (sample_env\<lparr>main_run_ret := 3\<rparr>)) = 3
   \<and> filter is_run (snd (WinMain True (sample_env\<lparr>main_run_ret := 3\<rparr>))) = [Main_run 0]
   \<and> fst (WinMain False (sample_env\<lparr>main_run_ret := 3\<rparr>)) = 7
   \<and> filter is_run (snd (WinMain False (sample_env\<lparr>main_run_ret := 3\<rparr>)))
       = [Crash_guard Fn_main_run 0 (Some 4096) ''unknown-1.0.0'']"
proof -
  have i: "\<not> main_initialize_ret (sample_env\<lparr>main_run_ret := 3\<rparr>) < 0"
    by (simp add: sample_env_def)
  have l: "target \<lparr>target = LINUX, BUILD_DEBUG = False\<rparr> = WINDOWS
           \<or> target \<lparr>target = LINUX, BUILD_DEBUG = False\<rparr> = LINUX"
    by simp
  have w: "target \<lparr>target = WINDOWS, BUILD_DEBUG = True\<rparr> = WINDOWS
           \<or> target \<lparr>target = WINDOWS, BUILD_DEBUG = True\<rparr> = LINUX"
    by simp
  show ?thesis
    using i exit_code_is_run_value [OF i l, of 1 "[''app'']" False]
      exit_code_is_run_value [OF i w, of 1 "[''app'']" True]
    by (simp add: sample_env_def crash_label_def)
qed



text \<open>
  The claim C4 at a debug build for macOS that is not configured as a BSD utility: the
  entry point calls no run entry function itself. It starts a second thread, enters the
  Cocoa event loop and returns what \<^verbatim>\<open>NSApplicationMain\<close> returned.
\<close>

theorem debug_main_on_macosx_hands_over_to_ui_loop:
  "main \<lparr>target = MACOSX, BUILD_DEBUG = True\<rparr> (sample_env\<lparr>app_config_bsdutility := False\<rparr>)
      1 [''app'']
     = (Some 0,
        [Main_initialize,
         Signal 9 Fn_sighandler,
         Signal 15 Fn_sighandler,
         Signal 3 Fn_sighandler,
         Signal 2 Fn_sighandler,
         Sigaction 13 SIG_IGN,
         Thread_set_main,
         App_config_bool HASH_APPLICATION HASH_BSDUTILITY,
         App_start_main_ns_thread 1 [''app''],
         NSApplicationMain 1 [''app''],
         Main_shutdown,
         CFRelease 1])"
  by (simp add: main_defs sample_env_def sig_defs)

text \<open>
  C4, as the code has it. In a debug build no entry point on any platform builds a
  crash label, registers a fault handler or calls \<^verbatim>\<open>crash_guard\<close>, whatever the dump
  callback of the application is. When initialisation succeeds, \<^verbatim>\<open>WinMain\<close>, and \<^verbatim>\<open>main\<close>
  on Windows, on Android and on POSIX other than macOS and iOS, run the application by
  exactly one direct call \<^verbatim>\<open>main_run( 0 )\<close>, followed by \<^verbatim>\<open>main_shutdown\<close>, and return its
  value (\<^verbatim>\<open>android_main\<close> returns nothing). On macOS and iOS \<^verbatim>\<open>main\<close> makes no call of
  \<^verbatim>\<open>main_run\<close>: configured as a BSD utility it calls \<^verbatim>\<open>app_main( 0 )\<close>; otherwise it calls
  \<^verbatim>\<open>_app_start_main_ns_thread\<close> and then \<^verbatim>\<open>NSApplicationMain\<close> on macOS, and
  \<^verbatim>\<open>UIApplicationMain\<close> on iOS.
\<close>

theorem debug_build_runs_unguarded:
  assumes "BUILD_DEBUG b"
  shows "filter is_guard (snd (main b e argc argv)) = []
     \<and> filter is_guard (snd (WinMain True e)) = []
     \<and> (\<not> main_initialize_ret e < 0 \<longrightarrow>
         WinMain True e =
           (main_run_ret e,
            [Main_initialize, SetConsoleCtrlHandler Fn_main_console_handler True, Thread_set_main,
             Main_run 0, Main_shutdown]))
     \<and> (\<not> main_initialize_ret e < 0 \<and> target b = WINDOWS \<longrightarrow>
         main b e argc argv =
           (Some (main_run_ret e),
            [Main_initialize, SetConsoleCtrlHandler Fn_main_console_handler True, Thread_set_main,
             Main_run 0, Main_shutdown]))
     \<and> (\<not> main_initialize_ret e < 0 \<and> target b = LINUX \<longrightarrow>
         main b e argc argv =
           (Some (main_run_ret e),
            [Main_initialize,
             Signal SIGKILL Fn_sighandler, Signal SIGTERM Fn_sighandler,
             Signal SIGQUIT Fn_sighandler, Signal SIGINT Fn_sighandler,
             Sigaction SIGPIPE SIG_IGN,
             Thread_set_main, Main_run 0, Main_shutdown]))
     \<and> (\<not> main_initialize_ret e < 0 \<and> target b = ANDROID
          \<and> \<not> android_initialize_ret e < 0 \<longrightarrow>
         main b e argc argv =
           (None,
            [Android_initialize, Main_initialize, Thread_set_main, Main_run 0, Main_shutdown,
             Android_shutdown]))
     \<and> (\<not> main_initialize_ret e < 0 \<and> (target b = MACOSX \<or> target b = IOS) \<longrightarrow>
         filter is_run (snd (main b e argc argv)) =
           (if app_config_bsdutility e then [App_main 0]
            else if target b = MACOSX
              then [App_start_main_ns_thread argc argv, NSApplicationMain argc argv]
              else [UIApplicationMain argc argv]))"
  using assms
  by (cases "target b")
     (simp_all add: WinMain_def main_defs run_defs sig_defs split: option.splits)

theorem debug_build_runs_unguarded_witness:
  "BUILD_DEBUG \<lparr>target = ANDROID, BUILD_DEBUG = True\<rparr>
   \<and> \<not> main_initialize_ret sample_env < 0
   \<and> main \<lparr>target = ANDROID, BUILD_DEBUG = True\<rparr> sample_env 1 [''app''] =
       (None,
        [Android_initialize, Main_initialize, Thread_set_main, Main_run 0, Main_shutdown,
         Android_shutdown])
   \<and> WinMain True sample_env =
       (7, [Main_initialize, SetConsoleCtrlHandler Fn_main_console_handler True, Thread_set_main,
            Main_run 0, Main_shutdown])
   \<and> filter is_run (snd (main \<lparr>target = IOS, BUILD_DEBUG = True\<rparr>
                            (sample_env\<lparr>app_config_bsdutility := False\<rparr>) 1 [''app'']))
       = [UIApplicationMain 1 [''app'']]"
proof -
  have d: "BUILD_DEBUG \<lparr>target = ANDROID, BUILD_DEBUG = True\<rparr>"
    by simp
  have d': "BUILD_DEBUG \<lparr>target = IOS, BUILD_DEBUG = True\<rparr>"
    by simp
  have i: "\<not> main_initialize_ret sample_env < 0"
    by (simp add: sample_env_def)
  show ?thesis
    using d i debug_build_runs_unguarded [OF d, of sample_env 1 "[''app'']"]
      debug_build_runs_unguarded [OF d', of "sample_env\<lparr>app_config_bsdutility := False\<rparr>"
        1 "[''app'']"]
    by (simp add: sample_env_def)
qed

text \<open>
  The claim C8 at a release build for macOS, configured as a BSD utility, beside the same
  build for a console platform: the console entry point runs the application through
  \<^verbatim>\<open>crash_guard\<close> and releases the label, the macOS one calls \<^verbatim>\<open>app_main( 0 )\<close> unguarded
  and releases the bundle after \<^verbatim>\<open>main_shutdown\<close>.
\<close>

theorem headless_macosx_release_run_is_not_guarded:
  "filter is_run (snd (main \<lparr>target = MACOSX, BUILD_DEBUG = False\<rparr> sample_env 1 [''app'']))
     = [App_main 0]
   \<and> filter is_run (snd (main \<lparr>target = LINUX, BUILD_DEBUG = False\<rparr> sample_env 1 [''app'']))
     = [Crash_guard Fn_main_run 0 (Some 4096) ''unknown-1.0.0'']
   \<and> filter is_shutdown (snd (main \<lparr>target = MACOSX, BUILD_DEBUG = False\<rparr> sample_env 1 [''app'']))
     = [Main_shutdown, CFRelease 1]
   \<and> filter is_shutdown (snd (main \<lparr>target = LINUX, BUILD_DEBUG = False\<rparr> sample_env 1 [''app'']))
     = [String_deallocate ''unknown-1.0.0'', Main_shutdown]"
  by (simp add: main_defs run_defs Let_def sample_env_def)

text \<open>
  C8, as the code has it. On macOS and iOS, when the application is configured as a BSD
  utility and initialisation succeeds, \<^verbatim>\<open>main\<close> enters no user-interface event loop and
  starts no second thread. It installs the signal handlers as the console case does,
  runs the application by calling \<^verbatim>\<open>app_main( 0 )\<close> directly, in debug and release builds
  alike and never through \<^verbatim>\<open>crash_guard\<close>, then calls \<^verbatim>\<open>main_shutdown\<close>, then releases
  the bundle handle if there is one, and returns the value of \<^verbatim>\<open>app_main\<close>.
\<close>

theorem headless_utility_run:
  assumes "target b = MACOSX \<or> target b = IOS"
    and "app_config_bsdutility e"
    and "\<not> main_initialize_ret e < 0"
  shows "main b e argc argv =
      (Some (app_main_ret e),
       [Main_initialize,
        Signal SIGKILL Fn_sighandler,
        Signal SIGTERM Fn_sighandler,
        Signal SIGQUIT Fn_sighandler,
        Signal SIGINT Fn_sighandler,
        Sigaction SIGPIPE SIG_IGN,
        Thread_set_main,
        App_config_bool HASH_APPLICATION HASH_BSDUTILITY,
        App_main 0,
        Main_shutdown]
       @ (case bundle_global e of Some h \<Rightarrow> [CFRelease h] | None \<Rightarrow> []))
    \<and> filter is_ui (snd (main b e argc argv)) = []
    \<and> filter is_guard (snd (main b e argc argv)) = []
    \<and> filter is_run (snd (main b e argc argv)) = [App_main 0]"
  using assms by (auto simp add: main_defs split: option.splits)

theorem headless_utility_run_witness:
  "app_config_bsdutility sample_env \<and> \<not> main_initialize_ret sample_env < 0
   \<and> main \<lparr>target = IOS, BUILD_DEBUG = False\<rparr> sample_env 1 [''app''] =
      (Some 7,
       [Main_initialize,
        Signal 9 Fn_sighandler,
        Signal 15 Fn_sighandler,
        Signal 3 Fn_sighandler,
        Signal 2 Fn_sighandler,
        Sigaction 13 SIG_IGN,
        Thread_set_main,
        App_config_bool HASH_APPLICATION HASH_BSDUTILITY,
        App_main 0,
        Main_shutdown,
        CFRelease 1])"
proof -
  have p: "target \<lparr>target = IOS, BUILD_DEBUG = False\<rparr> = MACOSX
           \<or> target \<lparr>target = IOS, BUILD_DEBUG = False\<rparr> = IOS"
    by simp
  have u: "app_config_bsdutility sample_env"
    by (simp add: sample_env_def)
  have i: "\<not> main_initialize_ret sample_env < 0"
    by (simp add: sample_env_def)
  show ?thesis
    using u i headless_utility_run [OF p u i, of 1 "[''app'']"]
    by (simp add: sample_env_def sig_defs)
qed

section \<open>Properties of the termination hook\<close>

text \<open>
  C9. On macOS and iOS the "will terminate" hook \<^verbatim>\<open>_app_will_terminate\<close> runs the whole
  termination sequence itself, in one straight line: it posts the terminate event, pumps
  the events, leaves the main loop, stops the services and exits the application. Of
  its releases, the bundle handle (when there is one) comes first, the argument vector
  second, and \<^verbatim>\<open>core_shutdown\<close> after both, as the last call of all.
\<close>

theorem will_terminate_cleanup_order:
  "filter is_shutdown (app_will_terminate e)
     = (case bundle_global e of Some h \<Rightarrow> [CFRelease h] | None \<Rightarrow> [])
       @ [Array_deallocate (invoke_argv e), Core_shutdown]
   \<and> filter (\<lambda>c. \<not> is_shutdown c) (app_will_terminate e)
     = [System_event_post COREEVENT_TERMINATE, App_pump_events, App_main_post_loop,
        Core_terminate_services, App_exit, App_post_exit]
   \<and> last (app_will_terminate e) = Core_shutdown
   \<and> (bundle_global e = Some h \<longrightarrow>
        precedes (CFRelease h) (Array_deallocate (invoke_argv e)) (app_will_terminate e)
        \<and> precedes (Array_deallocate (invoke_argv e)) Core_shutdown (app_will_terminate e)
        \<and> precedes (CFRelease h) Core_shutdown (app_will_terminate e))"
  by (simp add: app_will_terminate_def split: option.splits)

theorem will_terminate_cleanup_order_witness:
  "bundle_global sample_env = Some 1
   \<and> filter is_shutdown (app_will_terminate sample_env)
       = [CFRelease 1, Array_deallocate [''app''], Core_shutdown]
   \<and> precedes (CFRelease 1) (Array_deallocate [''app'']) (app_will_terminate sample_env)
   \<and> precedes (Array_deallocate [''app'']) Core_shutdown (app_will_terminate sample_env)"
proof -
  have b: "bundle_global sample_env = Some 1"
    by (simp add: sample_env_def)
  show ?thesis
    using b will_terminate_cleanup_order [of sample_env 1]
    by (simp add: sample_env_def)
qed

end
